theory Spec2Isabelle
  imports Main "HOL-Library.Sublist"
begin

section \<open>Text and messages\<close>

text \<open>
  A Python \<^verbatim>\<open>str\<close> is a sequence of Unicode code points, and slicing such as
  \<^verbatim>\<open>content[:400]\<close> counts code points. Text is therefore a list of code points;
  \<open>ascii\<close> embeds an ASCII literal, and the pictographs of the source's literals are
  written as their code points.
\<close>

type_synonym str = "nat list"

definition ascii :: "string \<Rightarrow> str" where
  "ascii s = map of_char s"

definition NL :: str where
  "NL = [10]"

text \<open>The message classes imported from \<^verbatim>\<open>langchain_core.messages\<close>.\<close>

datatype message =
    HumanMessage (content: str)
  | AIMessage (content: str)
  | SystemMessage (content: str)

section \<open>State definition\<close>

text \<open>
  \<^verbatim>\<open>AgentState\<close> is a dictionary: a key is present with a value or absent, and the
  code reads every key with \<^verbatim>\<open>state.get(key, default)\<close>. Each key is an optional
  field; the \<open>messages\<close> channel holds a list. A worker's return value (a partial
  dictionary over the same keys) has the same type: \<open>None\<close> is a key that the worker
  does not write, and \<open>messages\<close> holds the entries to append.
\<close>

record AgentState =
  messages :: "message list"
  next_agent :: "str option"
  research_data :: "str option"
  market_data :: "str option"
  merged_research :: "str option"
  technical_text :: "str option"
  summary_text :: "str option"
  final_report :: "str option"
  task_complete :: "bool option"
  current_task :: "str option"

definition no_keys :: AgentState where
  "no_keys = \<lparr>messages = [], next_agent = None, research_data = None, market_data = None,
     merged_research = None, technical_text = None, summary_text = None,
     final_report = None, task_complete = None, current_task = None\<rparr>"

text \<open>\<^verbatim>\<open>state.get(key, default)\<close>\<close>

definition dict_get :: "'a option \<Rightarrow> 'a \<Rightarrow> 'a" where
  "dict_get field dflt = (case field of None \<Rightarrow> dflt | Some v \<Rightarrow> v)"

text \<open>\<^verbatim>\<open>bool(s)\<close> on text: the empty text is false, any other is true.\<close>

definition bool_of_str :: "str \<Rightarrow> bool" where
  "bool_of_str s = (s \<noteq> [])"

text \<open>
  Merging a worker's return value into the state: a key the worker wrote replaces the
  stored value, a key it did not write keeps it, and the \<open>messages\<close> channel (whose
  reducer is \<^verbatim>\<open>add_messages\<close>; the workers create fresh messages) appends.
\<close>

definition overwrite :: "'a option \<Rightarrow> 'a option \<Rightarrow> 'a option" where
  "overwrite old new = (case new of None \<Rightarrow> old | Some v \<Rightarrow> Some v)"

definition apply_update :: "AgentState \<Rightarrow> AgentState \<Rightarrow> AgentState" where
  "apply_update state upd =
     \<lparr>messages = messages state @ messages upd,
      next_agent = overwrite (next_agent state) (next_agent upd),
      research_data = overwrite (research_data state) (research_data upd),
      market_data = overwrite (market_data state) (market_data upd),
      merged_research = overwrite (merged_research state) (merged_research upd),
      technical_text = overwrite (technical_text state) (technical_text upd),
      summary_text = overwrite (summary_text state) (summary_text upd),
      final_report = overwrite (final_report state) (final_report upd),
      task_complete = overwrite (task_complete state) (task_complete upd),
      current_task = overwrite (current_task state) (current_task upd)\<rparr>"

section \<open>Environment\<close>

text \<open>
  What the workers reach outside the state: the chat model (\<^verbatim>\<open>llm.invoke\<close> on one
  human message holding the prompt, answering with the content of the reply or raising
  an error of the backend, of type \<open>'e\<close>) and the clock, read by
  \<^verbatim>\<open>datetime.now().strftime('%Y-%m-%d %H:%M')\<close>.
\<close>

record 'e env =
  llm :: "str \<Rightarrow> 'e + str"
  now_strftime :: str

section \<open>Workers\<close>

subsection \<open>CEO (Supervisor)\<close>

definition ceo_prefix :: str where
  "ceo_prefix = [0x1F9D1, 0x200D, 0x1F4BC]"

definition ceo_agent :: "AgentState \<Rightarrow> AgentState" where
  "ceo_agent state =
     (let has_research = bool_of_str (dict_get (merged_research state) []);
          has_tech = bool_of_str (dict_get (technical_text state) []);
          has_summary = bool_of_str (dict_get (summary_text state) [])
      in if \<not> has_research then
           no_keys\<lparr>messages := [AIMessage (ceo_prefix @
               ascii '' CEO: Let's start research. Handing off to Research Team Leader.'')],
             next_agent := Some (ascii ''research_team_leader'')\<rparr>
         else if \<not> (has_tech \<and> has_summary) then
           no_keys\<lparr>messages := [AIMessage (ceo_prefix @
               ascii '' CEO: Research complete. Handing off to Writing Team Leader.'')],
             next_agent := Some (ascii ''writing_team_leader'')\<rparr>
         else
           no_keys\<lparr>messages := [AIMessage (ceo_prefix @
               ascii '' CEO: All tasks complete. Great job team!'')],
             next_agent := Some (ascii ''end'')\<rparr>)"

subsection \<open>Research Team Leader\<close>

definition research_team_leader :: "AgentState \<Rightarrow> AgentState" where
  "research_team_leader state =
     (let task = dict_get (current_task state) (ascii ''No Task Provided'');
          leader_msg = [0x1F4CB] @ ascii '' Research Team Leader:'' @ NL @
            ascii ''Splitting research task:'' @ NL @
            ascii ''- Data Researcher '' @ [0x2192] @ ascii '' factual data'' @ NL @
            ascii ''- Market Researcher '' @ [0x2192] @ ascii '' market trends'' @ NL @
            ascii ''Task: '' @ task
      in no_keys\<lparr>messages := [AIMessage leader_msg],
           next_agent := Some (ascii ''data_researcher'')\<rparr>)"

subsection \<open>Data Researcher\<close>

definition data_prompt :: "str \<Rightarrow> str" where
  "data_prompt task =
     ascii ''As a Data Researcher, find factual data, statistics, and scientific info about:''
       @ NL @ NL @ task @ NL @ NL @ ascii ''Keep it concise but thorough.''"

definition data_researcher :: "'e env \<Rightarrow> AgentState \<Rightarrow> 'e + AgentState" where
  "data_researcher E state =
     (let task = dict_get (current_task state) [];
          prompt = data_prompt task
      in case llm E prompt of
           Inl err \<Rightarrow> Inl err
         | Inr result_content \<Rightarrow>
             Inr (no_keys\<lparr>messages := [AIMessage ([0x1F50E] @ ascii '' Data Researcher:'' @ NL @
                      take 400 result_content @ ascii ''...'')],
                    research_data := Some result_content,
                    next_agent := Some (ascii ''market_researcher'')\<rparr>))"

subsection \<open>Market Researcher\<close>

definition market_prompt :: "str \<Rightarrow> str" where
  "market_prompt task =
     ascii ''As a Market Researcher, find trends, business insights, and market data about:''
       @ NL @ NL @ task @ NL @ NL @ ascii ''Keep it concise but thorough.''"

definition market_researcher :: "'e env \<Rightarrow> AgentState \<Rightarrow> 'e + AgentState" where
  "market_researcher E state =
     (let task = dict_get (current_task state) [];
          prompt = market_prompt task
      in case llm E prompt of
           Inl err \<Rightarrow> Inl err
         | Inr result_content \<Rightarrow>
             Inr (no_keys\<lparr>messages := [AIMessage ([0x1F4C8] @ ascii '' Market Researcher:'' @ NL @
                      take 400 result_content @ ascii ''...'')],
                    market_data := Some result_content,
                    next_agent := Some (ascii ''merge_research'')\<rparr>))"

subsection \<open>Merge Research\<close>

definition merged_text :: "str \<Rightarrow> str \<Rightarrow> str" where
  "merged_text research market =
     ascii ''**DATA RESEARCH:**'' @ NL @ research @ NL @ NL @
     ascii ''**MARKET RESEARCH:**'' @ NL @ market"

definition merge_research :: "AgentState \<Rightarrow> AgentState" where
  "merge_research state =
     (let merged = merged_text (dict_get (research_data state) [])
                               (dict_get (market_data state) [])
      in no_keys\<lparr>messages := [AIMessage ([0x2705] @
               ascii '' Research Team Leader: Merged research data.'')],
           merged_research := Some merged,
           next_agent := Some (ascii ''ceo_agent'')\<rparr>)"

subsection \<open>Writing Team Leader\<close>

definition writing_team_leader :: "AgentState \<Rightarrow> AgentState" where
  "writing_team_leader state =
     (let msg = [0x1F4DD] @
            ascii '' Writing Team Leader: Assigning tasks to Technical Writer and Summary Writer.''
      in no_keys\<lparr>messages := [AIMessage msg],
           next_agent := Some (ascii ''technical_writer'')\<rparr>)"

subsection \<open>Technical Writer\<close>

definition technical_prompt :: "str \<Rightarrow> str \<Rightarrow> str" where
  "technical_prompt task research =
     ascii ''As a Technical Writer, write a technical explanation about:'' @ NL @ NL @
     ascii ''Task: '' @ task @ NL @ NL @
     ascii ''Based on research:'' @ NL @ take 2000 research @ NL"

definition technical_writer :: "'e env \<Rightarrow> AgentState \<Rightarrow> 'e + AgentState" where
  "technical_writer E state =
     (let research = dict_get (merged_research state) [];
          task = dict_get (current_task state) [];
          prompt = technical_prompt task research
      in case llm E prompt of
           Inl err \<Rightarrow> Inl err
         | Inr result_content \<Rightarrow>
             Inr (no_keys\<lparr>messages := [AIMessage ([0x1F9D1, 0x200D, 0x1F4BB] @
                      ascii '' Technical Writer:'' @ NL @
                      take 400 result_content @ ascii ''...'')],
                    technical_text := Some result_content,
                    next_agent := Some (ascii ''summary_writer'')\<rparr>))"

subsection \<open>Summary Writer\<close>

definition summary_prompt :: "str \<Rightarrow> str \<Rightarrow> str" where
  "summary_prompt task research =
     ascii ''As a Summary Writer, create an executive summary for:'' @ NL @ NL @
     ascii ''Task: '' @ task @ NL @ NL @
     ascii ''Based on:'' @ NL @ take 2000 research @ NL"

definition summary_writer :: "'e env \<Rightarrow> AgentState \<Rightarrow> 'e + AgentState" where
  "summary_writer E state =
     (let research = dict_get (merged_research state) [];
          task = dict_get (current_task state) [];
          prompt = summary_prompt task research
      in case llm E prompt of
           Inl err \<Rightarrow> Inl err
         | Inr result_content \<Rightarrow>
             Inr (no_keys\<lparr>messages := [AIMessage ([0x1F4DD] @ ascii '' Summary Writer:'' @ NL @
                      take 400 result_content @ ascii ''...'')],
                    summary_text := Some result_content,
                    next_agent := Some (ascii ''compile_report'')\<rparr>))"

subsection \<open>Compile Report\<close>

definition rule_line :: str where
  "rule_line = ascii ''=========================================================''"

definition report_text :: "str \<Rightarrow> str \<Rightarrow> str \<Rightarrow> str \<Rightarrow> str" where
  "report_text generated topic technical summary =
     NL @
     [0x1F4C4] @ ascii '' FINAL REPORT'' @ NL @
     rule_line @ NL @
     ascii ''Generated: '' @ generated @ NL @
     ascii ''Topic: '' @ topic @ NL @
     rule_line @ NL @
     NL @
     ascii ''**Technical Details:**'' @ NL @
     technical @ NL @
     NL @
     ascii ''**Executive Summary:**'' @ NL @
     summary @ NL @
     NL @
     rule_line @ NL @
     ascii ''Compiled by Multi-Agent AI System powered by Groq'' @ NL"

definition compile_report :: "'e env \<Rightarrow> AgentState \<Rightarrow> AgentState" where
  "compile_report E state =
     (let report = report_text (now_strftime E)
                     (dict_get (current_task state) [])
                     (dict_get (technical_text state) [])
                     (dict_get (summary_text state) [])
      in no_keys\<lparr>messages := [AIMessage ([0x2705] @
               ascii '' Writing Team Leader: Final report compiled.'')],
           final_report := Some report,
           task_complete := Some True,
           next_agent := Some (ascii ''ceo_agent'')\<rparr>)"

section \<open>Routing\<close>

text \<open>\<^verbatim>\<open>END\<close> of \<^verbatim>\<open>langgraph.graph\<close> is the text \<^verbatim>\<open>__end__\<close>, as the router's
  return annotation spells it.\<close>

definition END :: str where
  "END = ascii ''__end__''"

definition router :: "AgentState \<Rightarrow> str" where
  "router state =
     (if dict_get (task_complete state) False then END
      else dict_get (next_agent state) (ascii ''ceo_agent''))"

section \<open>Graph\<close>

text \<open>The nine \<^verbatim>\<open>workflow.add_node\<close> registrations, in order.\<close>

definition nodes :: "'e env \<Rightarrow> (str \<times> (AgentState \<Rightarrow> 'e + AgentState)) list" where
  "nodes E =
     [(ascii ''ceo_agent'', \<lambda>state. Inr (ceo_agent state)),
      (ascii ''research_team_leader'', \<lambda>state. Inr (research_team_leader state)),
      (ascii ''data_researcher'', data_researcher E),
      (ascii ''market_researcher'', market_researcher E),
      (ascii ''merge_research'', \<lambda>state. Inr (merge_research state)),
      (ascii ''writing_team_leader'', \<lambda>state. Inr (writing_team_leader state)),
      (ascii ''technical_writer'', technical_writer E),
      (ascii ''summary_writer'', summary_writer E),
      (ascii ''compile_report'', \<lambda>state. Inr (compile_report E state))]"

definition entry_point :: str where
  "entry_point = ascii ''ceo_agent''"

text \<open>The dictionary handed to \<^verbatim>\<open>add_conditional_edges\<close>; it is the same for every
  node.\<close>

definition path_map :: "(str \<times> str) list" where
  "path_map =
     [(ascii ''ceo_agent'', ascii ''ceo_agent''),
      (ascii ''research_team_leader'', ascii ''research_team_leader''),
      (ascii ''data_researcher'', ascii ''data_researcher''),
      (ascii ''market_researcher'', ascii ''market_researcher''),
      (ascii ''merge_research'', ascii ''merge_research''),
      (ascii ''writing_team_leader'', ascii ''writing_team_leader''),
      (ascii ''technical_writer'', ascii ''technical_writer''),
      (ascii ''summary_writer'', ascii ''summary_writer''),
      (ascii ''compile_report'', ascii ''compile_report''),
      (END, END)]"

text \<open>
  The compiled graph, as the library runs it: invoke the current node on the state,
  merge what it returns, ask the router, look its answer up in the path map, and go
  on with the node found there or stop at \<open>END\<close>. An error raised inside a node leaves
  \<^verbatim>\<open>graph.invoke\<close> as it is; an answer of the router that is no key of the path map is
  a \<^verbatim>\<open>KeyError\<close>; and a run that needs more node invocations than the recursion limit
  allows ends in \<^verbatim>\<open>GraphRecursionError\<close>. Beside the outcome, \<open>run_from\<close> records
  every completed step: the node invoked and the state after the merge.
\<close>

datatype 'e run_error =
    NodeException 'e
  | KeyError str
  | GraphRecursionError

fun run_from ::
  "'e env \<Rightarrow> nat \<Rightarrow> str \<Rightarrow> AgentState \<Rightarrow> (str \<times> AgentState) list \<times> ('e run_error + AgentState)"
where
  "run_from E 0 node state = ([], Inl GraphRecursionError)"
| "run_from E (Suc limit) node state =
     (case map_of (nodes E) node of
        None \<Rightarrow> ([], Inl (KeyError node))
      | Some handler \<Rightarrow>
          (case handler state of
             Inl err \<Rightarrow> ([], Inl (NodeException err))
           | Inr upd \<Rightarrow>
               (let state' = apply_update state upd in
                case map_of path_map (router state') of
                  None \<Rightarrow> ([(node, state')], Inl (KeyError (router state')))
                | Some target \<Rightarrow>
                    if target = END then ([(node, state')], Inr state')
                    else (case run_from E limit target state' of
                            (steps, outcome) \<Rightarrow> ((node, state') # steps, outcome)))))"

definition graph_steps :: "'e env \<Rightarrow> nat \<Rightarrow> AgentState \<Rightarrow> (str \<times> AgentState) list" where
  "graph_steps E limit input = fst (run_from E limit entry_point input)"

definition graph_invoke :: "'e env \<Rightarrow> nat \<Rightarrow> AgentState \<Rightarrow> 'e run_error + AgentState" where
  "graph_invoke E limit input = snd (run_from E limit entry_point input)"

text \<open>The library's default recursion limit.\<close>

definition default_recursion_limit :: nat where
  "default_recursion_limit = 25"

text \<open>The input both callers build: the question as the seed message and as the task.\<close>

definition initial_state :: "str \<Rightarrow> AgentState" where
  "initial_state user_question =
     no_keys\<lparr>messages := [HumanMessage user_question],
       current_task := Some user_question\<rparr>"

text \<open>The states a run passes through: the input, then the state after each completed
  step.\<close>

definition reachable_states :: "'e env \<Rightarrow> nat \<Rightarrow> AgentState \<Rightarrow> AgentState list" where
  "reachable_states E limit input = input # map snd (graph_steps E limit input)"

section \<open>The calls to the backend, counted\<close>

text \<open>
  The chat model is a service outside the program: it may answer the same prompt
  differently from one call to the next. To tell a worker that calls it once from one
  that calls it again after a failure, the backend is taken here as the answers it
  gives call by call, \<open>backend n\<close> being its answer to call number \<open>n\<close>, and the number of
  calls served so far is passed along. \<open>llm_invoke\<close> is one \<^verbatim>\<open>llm.invoke\<close>: it takes the
  answer of the next call and counts that call.
\<close>

type_synonym 'e backend = "nat \<Rightarrow> str \<Rightarrow> 'e + str"

definition llm_invoke :: "'e backend \<Rightarrow> str \<Rightarrow> nat \<Rightarrow> ('e + str) \<times> nat" where
  "llm_invoke backend prompt calls = (backend calls prompt, Suc calls)"

text \<open>The four workers that call the backend, with their calls counted.\<close>

definition data_researcher_calls ::
  "'e backend \<Rightarrow> AgentState \<Rightarrow> nat \<Rightarrow> ('e + AgentState) \<times> nat" where
  "data_researcher_calls backend state calls =
     (let task = dict_get (current_task state) [];
          prompt = data_prompt task
      in case llm_invoke backend prompt calls of
           (Inl err, calls') \<Rightarrow> (Inl err, calls')
         | (Inr result_content, calls') \<Rightarrow>
             (Inr (no_keys\<lparr>messages := [AIMessage ([0x1F50E] @ ascii '' Data Researcher:'' @ NL @
                      take 400 result_content @ ascii ''...'')],
                    research_data := Some result_content,
                    next_agent := Some (ascii ''market_researcher'')\<rparr>), calls'))"

definition market_researcher_calls ::
  "'e backend \<Rightarrow> AgentState \<Rightarrow> nat \<Rightarrow> ('e + AgentState) \<times> nat" where
  "market_researcher_calls backend state calls =
     (let task = dict_get (current_task state) [];
          prompt = market_prompt task
      in case llm_invoke backend prompt calls of
           (Inl err, calls') \<Rightarrow> (Inl err, calls')
         | (Inr result_content, calls') \<Rightarrow>
             (Inr (no_keys\<lparr>messages := [AIMessage ([0x1F4C8] @ ascii '' Market Researcher:'' @ NL @
                      take 400 result_content @ ascii ''...'')],
                    market_data := Some result_content,
                    next_agent := Some (ascii ''merge_research'')\<rparr>), calls'))"

definition technical_writer_calls ::
  "'e backend \<Rightarrow> AgentState \<Rightarrow> nat \<Rightarrow> ('e + AgentState) \<times> nat" where
  "technical_writer_calls backend state calls =
     (let research = dict_get (merged_research state) [];
          task = dict_get (current_task state) [];
          prompt = technical_prompt task research
      in case llm_invoke backend prompt calls of
           (Inl err, calls') \<Rightarrow> (Inl err, calls')
         | (Inr result_content, calls') \<Rightarrow>
             (Inr (no_keys\<lparr>messages := [AIMessage ([0x1F9D1, 0x200D, 0x1F4BB] @
                      ascii '' Technical Writer:'' @ NL @
                      take 400 result_content @ ascii ''...'')],
                    technical_text := Some result_content,
                    next_agent := Some (ascii ''summary_writer'')\<rparr>), calls'))"

definition summary_writer_calls ::
  "'e backend \<Rightarrow> AgentState \<Rightarrow> nat \<Rightarrow> ('e + AgentState) \<times> nat" where
  "summary_writer_calls backend state calls =
     (let research = dict_get (merged_research state) [];
          task = dict_get (current_task state) [];
          prompt = summary_prompt task research
      in case llm_invoke backend prompt calls of
           (Inl err, calls') \<Rightarrow> (Inl err, calls')
         | (Inr result_content, calls') \<Rightarrow>
             (Inr (no_keys\<lparr>messages := [AIMessage ([0x1F4DD] @ ascii '' Summary Writer:'' @ NL @
                      take 400 result_content @ ascii ''...'')],
                    summary_text := Some result_content,
                    next_agent := Some (ascii ''compile_report'')\<rparr>), calls'))"

text \<open>The registered nodes and the run of the graph, with the count passed from node to
  node; the five workers that do not call the backend leave it as it is.\<close>

definition nodes_calls ::
  "'e backend \<Rightarrow> str \<Rightarrow> (str \<times> (AgentState \<Rightarrow> nat \<Rightarrow> ('e + AgentState) \<times> nat)) list" where
  "nodes_calls backend stamp =
     [(ascii ''ceo_agent'', \<lambda>state calls. (Inr (ceo_agent state), calls)),
      (ascii ''research_team_leader'', \<lambda>state calls. (Inr (research_team_leader state), calls)),
      (ascii ''data_researcher'', data_researcher_calls backend),
      (ascii ''market_researcher'', market_researcher_calls backend),
      (ascii ''merge_research'', \<lambda>state calls. (Inr (merge_research state), calls)),
      (ascii ''writing_team_leader'', \<lambda>state calls. (Inr (writing_team_leader state), calls)),
      (ascii ''technical_writer'', technical_writer_calls backend),
      (ascii ''summary_writer'', summary_writer_calls backend),
      (ascii ''compile_report'', \<lambda>state calls.
          (Inr (compile_report \<lparr>llm = backend calls, now_strftime = stamp\<rparr> state), calls))]"

fun run_calls ::
  "'e backend \<Rightarrow> str \<Rightarrow> nat \<Rightarrow> str \<Rightarrow> AgentState \<Rightarrow> nat \<Rightarrow>
     (str \<times> AgentState) list \<times> ('e run_error + AgentState) \<times> nat"
where
  "run_calls backend stamp 0 node state calls = ([], Inl GraphRecursionError, calls)"
| "run_calls backend stamp (Suc limit) node state calls =
     (case map_of (nodes_calls backend stamp) node of
        None \<Rightarrow> ([], Inl (KeyError node), calls)
      | Some handler \<Rightarrow>
          (case handler state calls of
             (Inl err, calls') \<Rightarrow> ([], Inl (NodeException err), calls')
           | (Inr upd, calls') \<Rightarrow>
               (let state' = apply_update state upd in
                case map_of path_map (router state') of
                  None \<Rightarrow> ([(node, state')], Inl (KeyError (router state')), calls')
                | Some target \<Rightarrow>
                    if target = END then ([(node, state')], Inr state', calls')
                    else (case run_calls backend stamp limit target state' calls' of
                            (steps, outcome, served) \<Rightarrow>
                              ((node, state') # steps, outcome, served)))))"

text \<open>A backend that raises \<open>err\<close> on call number \<open>n\<close> and answers every other call.\<close>

definition failing_at :: "nat \<Rightarrow> 'e \<Rightarrow> 'e backend" where
  "failing_at n err = (\<lambda>calls prompt. if calls = n then Inl err else Inr (ascii ''STATS''))"

section \<open>Stub backends and sample inputs\<close>

text \<open>A backend that never fails: it answers every prompt with \<open>reply prompt\<close>; the clock
  reads \<open>stamp\<close>.\<close>

definition stub_env :: "(str \<Rightarrow> str) \<Rightarrow> str \<Rightarrow> 'e env" where
  "stub_env reply stamp = \<lparr>llm = (\<lambda>prompt. Inr (reply prompt)), now_strftime = stamp\<rparr>"

text \<open>A backend whose every call raises \<open>err\<close>.\<close>

definition failing_env :: "'e \<Rightarrow> 'e env" where
  "failing_env err = \<lparr>llm = (\<lambda>prompt. Inl err), now_strftime = []\<rparr>"

text \<open>A backend that answers the Data Researcher's prompt for \<open>task\<close> and raises \<open>err\<close> on
  every other prompt.\<close>

definition market_failing_env :: "str \<Rightarrow> 'e \<Rightarrow> 'e env" where
  "market_failing_env task err =
     \<lparr>llm = (\<lambda>prompt. if prompt = data_prompt task then Inr (ascii ''STATS'') else Inl err),
      now_strftime = []\<rparr>"

definition sample_task :: str where
  "sample_task = ascii ''benefits and risks of AI in healthcare''"

definition sample_stamp :: str where
  "sample_stamp = ascii ''2024-05-17 09:30''"

text \<open>A stub that tells the four roles apart by the opening words of their prompts.\<close>

definition sample_reply :: "str \<Rightarrow> str" where
  "sample_reply prompt =
     (if prefix (ascii ''As a Data Researcher'') prompt then ascii ''STATS''
      else if prefix (ascii ''As a Market Researcher'') prompt then ascii ''TRENDS''
      else if prefix (ascii ''As a Technical Writer'') prompt then ascii ''TECH''
      else ascii ''SUMMARY'')"

definition sample_env :: "unit env" where
  "sample_env = stub_env sample_reply sample_stamp"

text \<open>A stub whose replies are all empty.\<close>

definition silent_env :: "unit env" where
  "silent_env = stub_env (\<lambda>prompt. []) sample_stamp"

text \<open>An input that already holds the merged research and both written texts, with
  \<open>task_complete\<close> absent.\<close>

definition texts_present_state :: AgentState where
  "texts_present_state =
     no_keys\<lparr>messages := [HumanMessage sample_task],
       current_task := Some sample_task,
       merged_research := Some (ascii ''m''),
       technical_text := Some (ascii ''x''),
       summary_text := Some (ascii ''y'')\<rparr>"

text \<open>Two inputs of the merge step: one whose data research is empty, one complete.\<close>

definition market_only_state :: AgentState where
  "market_only_state =
     no_keys\<lparr>research_data := Some [], market_data := Some (ascii ''market X'')\<rparr>"

definition both_present_state :: AgentState where
  "both_present_state =
     no_keys\<lparr>research_data := Some (ascii ''data Y''), market_data := Some (ascii ''market X'')\<rparr>"

section \<open>Basic facts\<close>

lemma ascii_eq_iff [simp]: "ascii a = ascii b \<longleftrightarrow> a = b"
  unfolding ascii_def by (simp add: inj_map_eq_map inj_on_def)

lemma ascii_Nil_iff [simp]: "ascii a = [] \<longleftrightarrow> a = []"
  by (simp add: ascii_def)

lemma dict_get_simps [simp]:
  "dict_get None d = d"
  "dict_get (Some v) d = v"
  by (simp_all add: dict_get_def)

lemma overwrite_simps [simp]:
  "overwrite old None = old"
  "overwrite old (Some v) = Some v"
  by (simp_all add: overwrite_def)

lemma merged_text_nonempty [simp]: "merged_text research market \<noteq> []"
  by (simp add: merged_text_def)

lemma report_text_nonempty [simp]: "report_text generated topic technical summary \<noteq> []"
  by (simp add: report_text_def NL_def)

lemma node_lookups [simp]:
  "map_of (nodes E) (ascii ''ceo_agent'') = Some (\<lambda>state. Inr (ceo_agent state))"
  "map_of (nodes E) (ascii ''research_team_leader'') =
     Some (\<lambda>state. Inr (research_team_leader state))"
  "map_of (nodes E) (ascii ''data_researcher'') = Some (data_researcher E)"
  "map_of (nodes E) (ascii ''market_researcher'') = Some (market_researcher E)"
  "map_of (nodes E) (ascii ''merge_research'') = Some (\<lambda>state. Inr (merge_research state))"
  "map_of (nodes E) (ascii ''writing_team_leader'') =
     Some (\<lambda>state. Inr (writing_team_leader state))"
  "map_of (nodes E) (ascii ''technical_writer'') = Some (technical_writer E)"
  "map_of (nodes E) (ascii ''summary_writer'') = Some (summary_writer E)"
  "map_of (nodes E) (ascii ''compile_report'') = Some (\<lambda>state. Inr (compile_report E state))"
  "map_of (nodes E) (ascii ''end'') = None"
  by (simp_all add: nodes_def)

lemma path_lookups [simp]:
  "map_of path_map (ascii ''ceo_agent'') = Some (ascii ''ceo_agent'')"
  "map_of path_map (ascii ''research_team_leader'') = Some (ascii ''research_team_leader'')"
  "map_of path_map (ascii ''data_researcher'') = Some (ascii ''data_researcher'')"
  "map_of path_map (ascii ''market_researcher'') = Some (ascii ''market_researcher'')"
  "map_of path_map (ascii ''merge_research'') = Some (ascii ''merge_research'')"
  "map_of path_map (ascii ''writing_team_leader'') = Some (ascii ''writing_team_leader'')"
  "map_of path_map (ascii ''technical_writer'') = Some (ascii ''technical_writer'')"
  "map_of path_map (ascii ''summary_writer'') = Some (ascii ''summary_writer'')"
  "map_of path_map (ascii ''compile_report'') = Some (ascii ''compile_report'')"
  "map_of path_map END = Some END"
  "map_of path_map (ascii ''end'') = None"
  by (simp_all add: path_map_def END_def)

lemma names_not_END [simp]:
  "ascii ''ceo_agent'' \<noteq> END"
  "ascii ''research_team_leader'' \<noteq> END"
  "ascii ''data_researcher'' \<noteq> END"
  "ascii ''market_researcher'' \<noteq> END"
  "ascii ''merge_research'' \<noteq> END"
  "ascii ''writing_team_leader'' \<noteq> END"
  "ascii ''technical_writer'' \<noteq> END"
  "ascii ''summary_writer'' \<noteq> END"
  "ascii ''compile_report'' \<noteq> END"
  "ascii ''end'' \<noteq> END"
  by (simp_all add: END_def)

lemmas worker_defs =
  ceo_agent_def research_team_leader_def data_researcher_def market_researcher_def
  merge_research_def writing_team_leader_def technical_writer_def summary_writer_def
  compile_report_def

lemmas run_defs =
  entry_point_def initial_state_def no_keys_def apply_update_def router_def
  bool_of_str_def Let_def case_prod_beta

lemma ten_steps: "10 + k = Suc (Suc (Suc (Suc (Suc (Suc (Suc (Suc (Suc (Suc k)))))))))"
  by simp

lemma at_least_ten: "(10::nat) \<le> limit \<Longrightarrow> \<exists>k. limit = 10 + k"
  by (simp add: le_iff_add)

subsection \<open>The run on a backend that never fails\<close>

lemma stub_run_visits:
  "map fst (fst (run_from (stub_env reply stamp) (10 + k) entry_point (initial_state task))) =
     [ascii ''ceo_agent'', ascii ''research_team_leader'', ascii ''data_researcher'',
      ascii ''market_researcher'', ascii ''merge_research'', ascii ''ceo_agent'',
      ascii ''writing_team_leader'', ascii ''technical_writer'', ascii ''summary_writer'',
      ascii ''compile_report'']"
  unfolding ten_steps
  by (simp add: run_defs stub_env_def worker_defs)

lemma stub_run_final:
  "\<exists>fin. snd (run_from (stub_env reply stamp) (10 + k) entry_point (initial_state task)) = Inr fin
     \<and> research_data fin = Some (reply (data_prompt task))
     \<and> market_data fin = Some (reply (market_prompt task))
     \<and> merged_research fin =
         Some (merged_text (reply (data_prompt task)) (reply (market_prompt task)))
     \<and> technical_text fin = Some (reply (technical_prompt task
           (merged_text (reply (data_prompt task)) (reply (market_prompt task)))))
     \<and> summary_text fin = Some (reply (summary_prompt task
           (merged_text (reply (data_prompt task)) (reply (market_prompt task)))))
     \<and> final_report fin = Some (report_text stamp task
           (reply (technical_prompt task
              (merged_text (reply (data_prompt task)) (reply (market_prompt task)))))
           (reply (summary_prompt task
              (merged_text (reply (data_prompt task)) (reply (market_prompt task))))))
     \<and> task_complete fin = Some True
     \<and> current_task fin = Some task"
  unfolding ten_steps
  by (simp add: run_defs stub_env_def worker_defs)

lemma stub_run_messages:
  "\<exists>fin. snd (run_from (stub_env reply stamp) (10 + k) entry_point (initial_state task)) = Inr fin
     \<and> length (messages fin) = 11
     \<and> hd (messages fin) = HumanMessage task
     \<and> (\<forall>m \<in> set (tl (messages fin)). content m \<noteq> [])"
  unfolding ten_steps
  by (simp add: run_defs stub_env_def worker_defs ceo_prefix_def)

subsection \<open>Text inside text\<close>

lemma sublist_after: "sublist xs ys \<Longrightarrow> sublist xs (ps @ ys)"
  by (metis append.assoc sublist_def)

lemma sublist_same: "sublist xs xs"
  by simp

lemma report_text_contains:
  "sublist topic (report_text generated topic technical summary)"
  "sublist technical (report_text generated topic technical summary)"
  "sublist summary (report_text generated topic technical summary)"
  unfolding report_text_def
  by (intro sublist_after sublist_append_rightI)+

section \<open>The router\<close>

text \<open>
  C1. The router is a total function of the state. When \<open>task_complete\<close> is true
  it answers \<open>END\<close>, whatever the other keys hold. When \<open>task_complete\<close> is false or
  absent it answers the stored \<open>next_agent\<close>, and the entry node \<^verbatim>\<open>ceo_agent\<close> when
  that key is absent; after a worker's return value has been merged, the stored
  \<open>next_agent\<close> is the one that worker wrote.
\<close>

theorem router_decides:
  "(task_complete state = Some True \<longrightarrow> router state = END) \<and>
   (task_complete state \<noteq> Some True \<longrightarrow>
      router state = (case next_agent state of None \<Rightarrow> entry_point | Some name \<Rightarrow> name)) \<and>
   (task_complete (apply_update state upd) \<noteq> Some True \<longrightarrow> next_agent upd = Some name \<longrightarrow>
      router (apply_update state upd) = name)"
proof (intro conjI impI)
  assume "task_complete state = Some True"
  then show "router state = END"
    by (simp add: router_def)
next
  assume "task_complete state \<noteq> Some True"
  then have "\<not> dict_get (task_complete state) False"
    by (cases "task_complete state") auto
  then show "router state = (case next_agent state of None \<Rightarrow> entry_point | Some name \<Rightarrow> name)"
    by (cases "next_agent state") (simp_all add: router_def entry_point_def)
next
  assume open_task: "task_complete (apply_update state upd) \<noteq> Some True"
    and wrote: "next_agent upd = Some name"
  from open_task have "\<not> dict_get (task_complete (apply_update state upd)) False"
    by (cases "task_complete (apply_update state upd)") auto
  moreover from wrote have "next_agent (apply_update state upd) = Some name"
    by (simp add: apply_update_def)
  ultimately show "router (apply_update state upd) = name"
    by (simp add: router_def)
qed

theorem router_decides_witness:
  "router (apply_update (initial_state sample_task)
             (compile_report sample_env (initial_state sample_task))) = END \<and>
   router (initial_state sample_task) = entry_point \<and>
   router (apply_update (initial_state sample_task) (ceo_agent (initial_state sample_task))) =
     ascii ''research_team_leader''"
  using router_decides [of "apply_update (initial_state sample_task)
          (compile_report sample_env (initial_state sample_task))" no_keys "[]"]
    router_decides [of "initial_state sample_task" "ceo_agent (initial_state sample_task)"
          "ascii ''research_team_leader''"]
  by (simp add: initial_state_def no_keys_def apply_update_def compile_report_def
      ceo_agent_def bool_of_str_def Let_def)

section \<open>The order of the workers\<close>

text \<open>
  C2 (as amended). On a backend that never fails, the run started on the input that
  holds only the task and the seed message invokes ten workers, in the order
  \<^verbatim>\<open>ceo_agent\<close>, \<^verbatim>\<open>research_team_leader\<close>, \<^verbatim>\<open>data_researcher\<close>, \<^verbatim>\<open>market_researcher\<close>,
  \<^verbatim>\<open>merge_research\<close>, \<^verbatim>\<open>ceo_agent\<close>, \<^verbatim>\<open>writing_team_leader\<close>, \<^verbatim>\<open>technical_writer\<close>,
  \<^verbatim>\<open>summary_writer\<close>, \<^verbatim>\<open>compile_report\<close>, and then ends: once \<^verbatim>\<open>compile_report\<close> has set
  \<open>task_complete\<close>, the router answers \<open>END\<close> and the \<^verbatim>\<open>ceo_agent\<close> is not invoked a
  third time. This holds under every recursion limit of at least ten.
\<close>

theorem happy_path_visits:
  assumes "10 \<le> limit"
  shows "map fst (graph_steps (stub_env reply stamp :: 'e env) limit (initial_state task)) =
           [ascii ''ceo_agent'', ascii ''research_team_leader'', ascii ''data_researcher'',
            ascii ''market_researcher'', ascii ''merge_research'', ascii ''ceo_agent'',
            ascii ''writing_team_leader'', ascii ''technical_writer'', ascii ''summary_writer'',
            ascii ''compile_report''] \<and>
         (\<exists>fin. graph_invoke (stub_env reply stamp :: 'e env) limit (initial_state task) = Inr fin)"
proof -
  from assms obtain k where limit: "limit = 10 + k"
    using at_least_ten by blast
  have visits: "map fst (graph_steps (stub_env reply stamp :: 'e env) limit (initial_state task)) =
           [ascii ''ceo_agent'', ascii ''research_team_leader'', ascii ''data_researcher'',
            ascii ''market_researcher'', ascii ''merge_research'', ascii ''ceo_agent'',
            ascii ''writing_team_leader'', ascii ''technical_writer'', ascii ''summary_writer'',
            ascii ''compile_report'']"
    unfolding graph_steps_def limit by (rule stub_run_visits)
  from stub_run_final [where 'a = 'e, of reply stamp k task]
  have "\<exists>fin. graph_invoke (stub_env reply stamp :: 'e env) limit (initial_state task) = Inr fin"
    unfolding graph_invoke_def limit by blast
  with visits show ?thesis by blast
qed

theorem happy_path_visits_witness:
  "10 \<le> default_recursion_limit \<and>
   map fst (graph_steps sample_env default_recursion_limit (initial_state sample_task)) =
     [ascii ''ceo_agent'', ascii ''research_team_leader'', ascii ''data_researcher'',
      ascii ''market_researcher'', ascii ''merge_research'', ascii ''ceo_agent'',
      ascii ''writing_team_leader'', ascii ''technical_writer'', ascii ''summary_writer'',
      ascii ''compile_report''] \<and>
   (\<exists>fin. graph_invoke sample_env default_recursion_limit (initial_state sample_task) = Inr fin)"
proof -
  have limit: "10 \<le> default_recursion_limit"
    by (simp add: default_recursion_limit_def)
  from happy_path_visits [OF limit, where 'e = unit, of sample_reply sample_stamp sample_task]
  show ?thesis
    using limit by (simp add: sample_env_def)
qed

text \<open>
  C2 as first stated fails. The sequence of eleven workers that ends with a third visit of the \<^verbatim>\<open>ceo_agent\<close> is
  not the one the run takes: on the sample input the run completes ten steps.
\<close>

theorem eleven_step_sequence_counterexample:
  "map fst (graph_steps sample_env default_recursion_limit (initial_state sample_task)) \<noteq>
     [ascii ''ceo_agent'', ascii ''research_team_leader'', ascii ''data_researcher'',
      ascii ''market_researcher'', ascii ''merge_research'', ascii ''ceo_agent'',
      ascii ''writing_team_leader'', ascii ''technical_writer'', ascii ''summary_writer'',
      ascii ''compile_report'', ascii ''ceo_agent'']"
proof -
  have limit: "default_recursion_limit = 10 + 15"
    by (simp add: default_recursion_limit_def)
  have "map fst (graph_steps sample_env default_recursion_limit (initial_state sample_task)) =
     [ascii ''ceo_agent'', ascii ''research_team_leader'', ascii ''data_researcher'',
      ascii ''market_researcher'', ascii ''merge_research'', ascii ''ceo_agent'',
      ascii ''writing_team_leader'', ascii ''technical_writer'', ascii ''summary_writer'',
      ascii ''compile_report'']"
    unfolding graph_steps_def sample_env_def limit by (rule stub_run_visits)
  then show ?thesis by simp
qed

section \<open>The report of a run on a stub backend\<close>

text \<open>
  C6. For every task (the empty one included) and every stub backend that answers each
  prompt with a fixed text, the run started on the input that holds the task and the
  seed message ends normally under every recursion limit of at least ten (the
  library's default is 25), so it does not end in \<^verbatim>\<open>GraphRecursionError\<close>; the final
  state holds a \<open>final_report\<close> in which the task, the Technical Writer's stub text and
  the Summary Writer's stub text occur literally.
\<close>

theorem stub_run_report:
  assumes "10 \<le> limit"
  shows "\<exists>fin report technical summary.
           graph_invoke (stub_env reply stamp :: 'e env) limit (initial_state task) = Inr fin \<and>
           final_report fin = Some report \<and>
           technical_text fin = Some technical \<and>
           summary_text fin = Some summary \<and>
           technical = reply (technical_prompt task
              (merged_text (reply (data_prompt task)) (reply (market_prompt task)))) \<and>
           summary = reply (summary_prompt task
              (merged_text (reply (data_prompt task)) (reply (market_prompt task)))) \<and>
           sublist task report \<and> sublist technical report \<and> sublist summary report"
proof -
  from assms obtain k where limit: "limit = 10 + k"
    using at_least_ten by blast
  from stub_run_final [where 'a = 'e, of reply stamp k task]
  obtain fin where
    fin: "graph_invoke (stub_env reply stamp :: 'e env) limit (initial_state task) = Inr fin"
    and tech: "technical_text fin = Some (reply (technical_prompt task
           (merged_text (reply (data_prompt task)) (reply (market_prompt task)))))"
    and summ: "summary_text fin = Some (reply (summary_prompt task
           (merged_text (reply (data_prompt task)) (reply (market_prompt task)))))"
    and rep: "final_report fin = Some (report_text stamp task
           (reply (technical_prompt task
              (merged_text (reply (data_prompt task)) (reply (market_prompt task)))))
           (reply (summary_prompt task
              (merged_text (reply (data_prompt task)) (reply (market_prompt task))))))"
    unfolding graph_invoke_def limit by blast
  from fin tech summ rep show ?thesis
    by (intro exI conjI) (assumption | rule refl | rule report_text_contains)+
qed

theorem stub_run_report_witness:
  "10 \<le> default_recursion_limit \<and>
   (\<exists>fin report.
      graph_invoke sample_env default_recursion_limit (initial_state sample_task) = Inr fin \<and>
      final_report fin = Some report \<and>
      technical_text fin = Some (ascii ''TECH'') \<and>
      summary_text fin = Some (ascii ''SUMMARY'') \<and>
      sublist sample_task report \<and> sublist (ascii ''TECH'') report \<and>
      sublist (ascii ''SUMMARY'') report)"
proof -
  have limit: "10 \<le> default_recursion_limit"
    by (simp add: default_recursion_limit_def)
  have tech: "sample_reply (technical_prompt task research) = ascii ''TECH''" for task research
    by (simp add: sample_reply_def technical_prompt_def ascii_def)
  have summ: "sample_reply (summary_prompt task research) = ascii ''SUMMARY''" for task research
    by (simp add: sample_reply_def summary_prompt_def ascii_def)
  from stub_run_report [OF limit, where 'e = unit, of sample_reply sample_stamp sample_task]
  show ?thesis
    unfolding tech summ sample_env_def [symmetric] using limit by blast
qed

section \<open>The message log\<close>

lemma nodes_cases:
  assumes "map_of (nodes E) node = Some handler"
  shows "(node = ascii ''ceo_agent'' \<and> handler = (\<lambda>state. Inr (ceo_agent state))) \<or>
         (node = ascii ''research_team_leader'' \<and>
            handler = (\<lambda>state. Inr (research_team_leader state))) \<or>
         (node = ascii ''data_researcher'' \<and> handler = data_researcher E) \<or>
         (node = ascii ''market_researcher'' \<and> handler = market_researcher E) \<or>
         (node = ascii ''merge_research'' \<and> handler = (\<lambda>state. Inr (merge_research state))) \<or>
         (node = ascii ''writing_team_leader'' \<and>
            handler = (\<lambda>state. Inr (writing_team_leader state))) \<or>
         (node = ascii ''technical_writer'' \<and> handler = technical_writer E) \<or>
         (node = ascii ''summary_writer'' \<and> handler = summary_writer E) \<or>
         (node = ascii ''compile_report'' \<and> handler = (\<lambda>state. Inr (compile_report E state)))"
  using assms by (simp add: nodes_def split: if_splits)

lemma worker_logs_one:
  assumes "map_of (nodes E) node = Some handler" and "handler state = Inr upd"
  shows "\<exists>m. messages upd = [m] \<and> content m \<noteq> []"
  using nodes_cases [OF assms(1)] assms(2)
  by (elim disjE conjE)
     (auto simp: worker_defs no_keys_def ceo_prefix_def Let_def split: sum.splits)

text \<open>
  C9 (as amended). The log is append-only and grows by exactly one entry, a non-empty
  one, with every worker invocation: merging a worker's return value keeps the entries
  there were and adds that worker's message. After the full run on a backend that
  never fails, the log holds one entry more than there were worker invocations, the
  seed message and one entry for each of the ten invocations, eleven in all; every
  entry is non-empty when the task is.
\<close>

theorem messages_log_grows:
  "(\<forall>node handler state upd.
      map_of (nodes E) node = Some handler \<longrightarrow> handler state = Inr upd \<longrightarrow>
      (\<exists>m. messages (apply_update state upd) = messages state @ [m] \<and> content m \<noteq> [])) \<and>
   (10 \<le> limit \<longrightarrow>
      (\<exists>fin. graph_invoke (stub_env reply stamp :: 'e env) limit (initial_state task) = Inr fin \<and>
         length (messages fin) =
           length (graph_steps (stub_env reply stamp :: 'e env) limit (initial_state task)) + 1 \<and>
         length (messages fin) = 11 \<and>
         (task \<noteq> [] \<longrightarrow> (\<forall>m \<in> set (messages fin). content m \<noteq> []))))"
proof (intro conjI allI impI)
  fix node handler state upd
  assume "map_of (nodes E) node = Some handler" and "handler state = Inr upd"
  then obtain m where "messages upd = [m]" and "content m \<noteq> []"
    using worker_logs_one by blast
  then show "\<exists>m. messages (apply_update state upd) = messages state @ [m] \<and> content m \<noteq> []"
    by (simp add: apply_update_def)
next
  assume "10 \<le> limit"
  then obtain k where limit: "limit = 10 + k"
    using at_least_ten by blast
  from stub_run_messages [where 'a = 'e, of reply stamp k task]
  obtain fin where
    fin: "graph_invoke (stub_env reply stamp :: 'e env) limit (initial_state task) = Inr fin"
    and len: "length (messages fin) = 11"
    and seed: "hd (messages fin) = HumanMessage task"
    and rest: "\<forall>m \<in> set (tl (messages fin)). content m \<noteq> []"
    unfolding graph_invoke_def limit by blast
  have "length (map fst (graph_steps (stub_env reply stamp :: 'e env) limit
                  (initial_state task))) = 10"
    unfolding graph_steps_def limit by (simp only: stub_run_visits) simp
  then have steps: "length (graph_steps (stub_env reply stamp :: 'e env) limit
                      (initial_state task)) = 10"
    by simp
  from len obtain m ms where split: "messages fin = m # ms"
    by (cases "messages fin") auto
  have "\<forall>m \<in> set (messages fin). content m \<noteq> []" if "task \<noteq> []"
    using that seed rest by (auto simp: split)
  with fin len steps
  show "\<exists>fin. graph_invoke (stub_env reply stamp :: 'e env) limit (initial_state task) = Inr fin \<and>
         length (messages fin) =
           length (graph_steps (stub_env reply stamp :: 'e env) limit (initial_state task)) + 1 \<and>
         length (messages fin) = 11 \<and>
         (task \<noteq> [] \<longrightarrow> (\<forall>m \<in> set (messages fin). content m \<noteq> []))"
    by auto
qed

theorem messages_log_grows_witness:
  "(\<exists>m. messages (apply_update (initial_state sample_task) (ceo_agent (initial_state sample_task))) =
          messages (initial_state sample_task) @ [m] \<and> content m \<noteq> []) \<and>
   10 \<le> default_recursion_limit \<and> sample_task \<noteq> [] \<and>
   (\<exists>fin. graph_invoke sample_env default_recursion_limit (initial_state sample_task) = Inr fin \<and>
      length (messages fin) =
        length (graph_steps sample_env default_recursion_limit (initial_state sample_task)) + 1 \<and>
      length (messages fin) = 11 \<and>
      (\<forall>m \<in> set (messages fin). content m \<noteq> []))"
proof -
  have limit: "10 \<le> default_recursion_limit"
    by (simp add: default_recursion_limit_def)
  have task: "sample_task \<noteq> []"
    by (simp add: sample_task_def)
  have node: "map_of (nodes sample_env) (ascii ''ceo_agent'') =
                Some (\<lambda>state. Inr (ceo_agent state))"
    by simp
  note fact = messages_log_grows [where 'e = unit, of sample_env default_recursion_limit
      sample_reply sample_stamp sample_task]
  from fact node have first:
    "\<exists>m. messages (apply_update (initial_state sample_task)
            (ceo_agent (initial_state sample_task))) =
          messages (initial_state sample_task) @ [m] \<and> content m \<noteq> []"
    by blast
  from fact limit task have
    "\<exists>fin. graph_invoke sample_env default_recursion_limit (initial_state sample_task) = Inr fin \<and>
      length (messages fin) =
        length (graph_steps sample_env default_recursion_limit (initial_state sample_task)) + 1 \<and>
      length (messages fin) = 11 \<and>
      (\<forall>m \<in> set (messages fin). content m \<noteq> [])"
    unfolding sample_env_def [symmetric] by blast
  with first limit task show ?thesis by blast
qed

text \<open>
  C9 as first stated fails. The log is not as long as the number of worker invocations: on the sample input the
  run completes ten steps and leaves eleven entries.
\<close>

theorem log_length_counterexample:
  "length (graph_steps sample_env default_recursion_limit (initial_state sample_task)) = 10 \<and>
   (case graph_invoke sample_env default_recursion_limit (initial_state sample_task) of
      Inl err \<Rightarrow> False
    | Inr fin \<Rightarrow> length (messages fin) = 11)"
proof -
  have limit: "default_recursion_limit = 10 + 15"
    by (simp add: default_recursion_limit_def)
  have "length (map fst (graph_steps sample_env default_recursion_limit
                  (initial_state sample_task))) = 10"
    unfolding graph_steps_def sample_env_def limit by (simp only: stub_run_visits) simp
  moreover from stub_run_messages [where 'a = unit, of sample_reply sample_stamp 15 sample_task]
  have "case graph_invoke sample_env default_recursion_limit (initial_state sample_task) of
      Inl err \<Rightarrow> False
    | Inr fin \<Rightarrow> length (messages fin) = 11"
    unfolding graph_invoke_def sample_env_def limit by auto
  ultimately show ?thesis by simp
qed

section \<open>The merge step\<close>

text \<open>
  C5 (as amended). The merge step writes to \<open>merged_research\<close> the data research and the
  market research under their two headers, reading an absent input as the empty text.
  The result is never empty and holds both inputs, so with one input empty it holds
  the other one and an empty section. Its log message is the same fixed text for
  every state, its return value holds nothing but that message, \<open>merged_research\<close> and
  the hand-over to the \<^verbatim>\<open>ceo_agent\<close>, and it never fails.
\<close>

theorem merge_research_concatenates:
  "merge_research state =
     no_keys\<lparr>messages := [AIMessage ([0x2705] @
                 ascii '' Research Team Leader: Merged research data.'')],
       merged_research := Some (merged_text (dict_get (research_data state) [])
                                            (dict_get (market_data state) [])),
       next_agent := Some entry_point\<rparr> \<and>
   merged_text research market =
     ascii ''**DATA RESEARCH:**'' @ NL @ research @ NL @ NL @
     ascii ''**MARKET RESEARCH:**'' @ NL @ market \<and>
   merged_text research market \<noteq> [] \<and>
   sublist research (merged_text research market) \<and>
   sublist market (merged_text research market) \<and>
   messages (merge_research state) = messages (merge_research other_state)"
proof -
  have "sublist research (merged_text research market)"
    unfolding merged_text_def by (intro sublist_after sublist_append_rightI)+
  moreover have "sublist market (merged_text research market)"
    unfolding merged_text_def by (intro sublist_after sublist_same)+
  ultimately show ?thesis
    by (simp add: merge_research_def entry_point_def merged_text_def)
qed

text \<open>
  C5 as first stated fails. With the data research empty, the merge step logs what it logs for two complete
  inputs, and returns the merged text with an empty data section and nothing else.
\<close>

theorem merge_flag_counterexample:
  "messages (merge_research market_only_state) = messages (merge_research both_present_state) \<and>
   merge_research market_only_state =
     no_keys\<lparr>messages := [AIMessage ([0x2705] @
                 ascii '' Research Team Leader: Merged research data.'')],
       merged_research := Some (ascii ''**DATA RESEARCH:**'' @ NL @ NL @ NL @
                                ascii ''**MARKET RESEARCH:**'' @ NL @ ascii ''market X''),
       next_agent := Some (ascii ''ceo_agent'')\<rparr>"
  by (simp add: merge_research_def market_only_state_def both_present_state_def
      merged_text_def no_keys_def)

section \<open>The hand-over that ends the work\<close>

lemma ceo_agent_decision:
  "next_agent (ceo_agent state) = Some
     (if dict_get (merged_research state) [] = [] then ascii ''research_team_leader''
      else if dict_get (technical_text state) [] = [] \<or> dict_get (summary_text state) [] = []
        then ascii ''writing_team_leader''
      else ascii ''end'') \<and>
   length (messages (ceo_agent state)) = 1 \<and>
   ceo_agent state =
     no_keys\<lparr>messages := messages (ceo_agent state),
       next_agent := next_agent (ceo_agent state)\<rparr>"
  by (simp add: ceo_agent_def bool_of_str_def no_keys_def)

text \<open>
  C3, at an input where it fails. On a state that holds the merged research and both
  written texts, the \<^verbatim>\<open>ceo_agent\<close> logs one message and hands over to \<^verbatim>\<open>end\<close>. That
  text is not the terminal \<open>END\<close> and is no key of the path map.
\<close>

theorem ceo_otherwise_branch_emits_end:
  "ceo_agent texts_present_state =
     no_keys\<lparr>messages := [AIMessage (ceo_prefix @
                 ascii '' CEO: All tasks complete. Great job team!'')],
       next_agent := Some (ascii ''end'')\<rparr> \<and>
   ascii ''end'' \<noteq> END \<and>
   map_of path_map (ascii ''end'') = None"
  by (simp add: ceo_agent_def texts_present_state_def no_keys_def bool_of_str_def)

text \<open>
  Started on a state that holds the merged research and both written texts, the run
  completes one step, the \<^verbatim>\<open>ceo_agent\<close>'s; the state then holds \<^verbatim>\<open>end\<close> as \<open>next_agent\<close>,
  which names no registered node and is not \<open>END\<close>, and the run ends in a \<^verbatim>\<open>KeyError\<close>.
\<close>

lemma texts_present_run_KeyError:
  "graph_steps sample_env default_recursion_limit texts_present_state =
     [(ascii ''ceo_agent'', apply_update texts_present_state (ceo_agent texts_present_state))] \<and>
   next_agent (apply_update texts_present_state (ceo_agent texts_present_state)) =
     Some (ascii ''end'') \<and>
   map_of (nodes sample_env) (ascii ''end'') = None \<and>
   ascii ''end'' \<noteq> END \<and>
   graph_invoke sample_env default_recursion_limit texts_present_state =
     Inl (KeyError (ascii ''end''))"
proof -
  have limit: "default_recursion_limit = Suc 24"
    by (simp add: default_recursion_limit_def)
  have run: "run_from sample_env (Suc k) entry_point texts_present_state =
      ([(ascii ''ceo_agent'', apply_update texts_present_state (ceo_agent texts_present_state))],
       Inl (KeyError (ascii ''end'')))" for k
    by (simp add: run_defs ceo_agent_def texts_present_state_def)
  have "next_agent (apply_update texts_present_state (ceo_agent texts_present_state)) =
      Some (ascii ''end'')"
    by (simp add: run_defs ceo_agent_def texts_present_state_def)
  then show ?thesis
    unfolding graph_steps_def graph_invoke_def limit
    by (simp only: run fst_conv snd_conv) simp
qed

section \<open>A failing backend\<close>

lemma three_steps: "3 + k = Suc (Suc (Suc k))"
  by simp

lemma four_steps: "4 + k = Suc (Suc (Suc (Suc k)))"
  by simp

lemma data_failure_run:
  assumes "llm E (data_prompt task) = Inl err"
  shows "run_from E (3 + k) entry_point (initial_state task) =
           ([(ascii ''ceo_agent'',
               apply_update (initial_state task) (ceo_agent (initial_state task))),
             (ascii ''research_team_leader'',
               apply_update (apply_update (initial_state task) (ceo_agent (initial_state task)))
                 (research_team_leader
                    (apply_update (initial_state task) (ceo_agent (initial_state task)))))],
            Inl (NodeException err))"
  unfolding three_steps using assms
  by (simp add: run_defs ceo_agent_def research_team_leader_def data_researcher_def)

lemma market_failure_run:
  assumes "llm E (data_prompt task) = Inr reply" and "llm E (market_prompt task) = Inl err"
  shows "map fst (fst (run_from E (4 + k) entry_point (initial_state task))) =
           [ascii ''ceo_agent'', ascii ''research_team_leader'', ascii ''data_researcher''] \<and>
         snd (run_from E (4 + k) entry_point (initial_state task)) = Inl (NodeException err)"
  unfolding four_steps using assms
  by (simp add: run_defs ceo_agent_def research_team_leader_def data_researcher_def
      market_researcher_def)

subsection \<open>With the calls counted\<close>

lemma counted_lookups [simp]:
  "map_of (nodes_calls backend stamp) (ascii ''ceo_agent'') =
     Some (\<lambda>state calls. (Inr (ceo_agent state), calls))"
  "map_of (nodes_calls backend stamp) (ascii ''research_team_leader'') =
     Some (\<lambda>state calls. (Inr (research_team_leader state), calls))"
  "map_of (nodes_calls backend stamp) (ascii ''data_researcher'') =
     Some (data_researcher_calls backend)"
  "map_of (nodes_calls backend stamp) (ascii ''market_researcher'') =
     Some (market_researcher_calls backend)"
  by (simp_all add: nodes_calls_def)

lemma researcher_calls_one:
  "snd (data_researcher_calls backend state calls) = Suc calls"
  "snd (market_researcher_calls backend state calls) = Suc calls"
  by (simp_all add: data_researcher_calls_def market_researcher_calls_def llm_invoke_def
      split: sum.splits)

text \<open>What a worker returns with its calls counted is what it returns on the answer of the
  call it makes.\<close>

lemma researcher_calls_outcome:
  "fst (data_researcher_calls backend state calls) =
     data_researcher \<lparr>llm = backend calls, now_strftime = stamp\<rparr> state"
  "fst (market_researcher_calls backend state calls) =
     market_researcher \<lparr>llm = backend calls, now_strftime = stamp\<rparr> state"
  by (simp_all add: data_researcher_calls_def market_researcher_calls_def llm_invoke_def
      data_researcher_def market_researcher_def split: sum.splits)

lemma writer_calls_outcome:
  "fst (technical_writer_calls backend state calls) =
     technical_writer \<lparr>llm = backend calls, now_strftime = stamp\<rparr> state"
  "fst (summary_writer_calls backend state calls) =
     summary_writer \<lparr>llm = backend calls, now_strftime = stamp\<rparr> state"
  by (simp_all add: technical_writer_calls_def summary_writer_calls_def llm_invoke_def
      technical_writer_def summary_writer_def split: sum.splits)

lemma data_failure_calls:
  assumes "backend calls (data_prompt task) = Inl err"
  shows "map fst (fst (run_calls backend stamp (3 + k) entry_point (initial_state task) calls)) =
           [ascii ''ceo_agent'', ascii ''research_team_leader''] \<and>
         snd (run_calls backend stamp (3 + k) entry_point (initial_state task) calls) =
           (Inl (NodeException err), Suc calls)"
  unfolding three_steps using assms
  by (simp add: run_defs ceo_agent_def research_team_leader_def data_researcher_calls_def
      llm_invoke_def)

lemma market_failure_calls:
  assumes "backend calls (data_prompt task) = Inr reply"
    and "backend (Suc calls) (market_prompt task) = Inl err"
  shows "map fst (fst (run_calls backend stamp (4 + k) entry_point (initial_state task) calls)) =
           [ascii ''ceo_agent'', ascii ''research_team_leader'', ascii ''data_researcher''] \<and>
         snd (run_calls backend stamp (4 + k) entry_point (initial_state task) calls) =
           (Inl (NodeException err), Suc (Suc calls))"
  unfolding four_steps using assms
  by (simp add: run_defs ceo_agent_def research_team_leader_def data_researcher_calls_def
      market_researcher_calls_def llm_invoke_def)

text \<open>
  On a backend whose answers do not change from call to call, the run with the calls
  counted takes the steps and has the outcome of the run without the count.
\<close>

lemma counted_handlers:
  "rel_option (\<lambda>counted handler. \<forall>state calls. fst (counted state calls) = handler state)
     (map_of (nodes_calls (\<lambda>calls. llm E) (now_strftime E)) node) (map_of (nodes E) node)"
proof -
  have env: "\<lparr>llm = llm E, now_strftime = now_strftime E\<rparr> = E"
    by simp
  show ?thesis
    by (simp add: nodes_calls_def nodes_def
        researcher_calls_outcome [where stamp = "now_strftime E"]
        writer_calls_outcome [where stamp = "now_strftime E"] env)
qed

lemma run_calls_run_from:
  "fst (run_calls (\<lambda>calls. llm E) (now_strftime E) limit node state calls) =
     fst (run_from E limit node state) \<and>
   fst (snd (run_calls (\<lambda>calls. llm E) (now_strftime E) limit node state calls)) =
     snd (run_from E limit node state)"
proof (induction limit arbitrary: node state calls)
  case 0
  show ?case by simp
next
  case (Suc limit)
  show ?case
  proof (cases "map_of (nodes E) node")
    case None
    with counted_handlers [of E node]
    have "map_of (nodes_calls (\<lambda>calls. llm E) (now_strftime E)) node = None"
      by (cases "map_of (nodes_calls (\<lambda>calls. llm E) (now_strftime E)) node") auto
    with None show ?thesis by simp
  next
    case (Some handler)
    with counted_handlers [of E node]
    obtain counted where counted: "map_of (nodes_calls (\<lambda>calls. llm E) (now_strftime E)) node =
        Some counted" and agree: "\<And>state calls. fst (counted state calls) = handler state"
      by (cases "map_of (nodes_calls (\<lambda>calls. llm E) (now_strftime E)) node") auto
    obtain result calls' where result: "counted state calls = (result, calls')"
      by (cases "counted state calls")
    with agree [of state calls] have handler: "handler state = result"
      by simp
    show ?thesis
    proof (cases result)
      case (Inl err)
      with Some counted result handler show ?thesis by simp
    next
      case (Inr upd)
      show ?thesis
      proof (cases "map_of path_map (router (apply_update state upd))")
        case None
        with Some counted result handler Inr show ?thesis by (simp add: Let_def)
      next
        case target: (Some target)
        show ?thesis
        proof (cases "target = END")
          case True
          with Some counted result handler Inr target show ?thesis by (simp add: Let_def)
        next
          case False
          with Some counted result handler Inr target
            Suc.IH [of target "apply_update state upd" calls']
          show ?thesis
            by (simp add: Let_def case_prod_beta)
        qed
      qed
    qed
  qed
qed

text \<open>
  C10 (as amended). When the backend call of the Data Researcher or of the Market
  Researcher raises an error, the worker ends with that very error, unchanged, after
  its one call; the run stops there, with no further worker invoked, and
  \<^verbatim>\<open>graph.invoke\<close> ends with the error alone: the caller receives no state and no
  report. With the calls counted: each researcher makes exactly one call, whether that
  call fails or not, and what it returns is what it returns on that call's answer; when
  the call fails the worker fails, whatever the backend would answer to a later call;
  and the run that fails at the Data Researcher has served one call when it ends, the
  run that fails at the Market Researcher two.
\<close>

theorem generation_failure_aborts:
  "(llm E (data_prompt (dict_get (current_task state) [])) = Inl err \<longrightarrow>
      data_researcher E state = Inl err) \<and>
   (llm E (market_prompt (dict_get (current_task state) [])) = Inl err \<longrightarrow>
      market_researcher E state = Inl err) \<and>
   (llm E (data_prompt task) = Inl err \<longrightarrow> 3 \<le> limit \<longrightarrow>
      graph_invoke E limit (initial_state task) = Inl (NodeException err) \<and>
      map fst (graph_steps E limit (initial_state task)) =
        [ascii ''ceo_agent'', ascii ''research_team_leader'']) \<and>
   (llm E (data_prompt task) = Inr reply \<longrightarrow> llm E (market_prompt task) = Inl err \<longrightarrow>
      4 \<le> limit \<longrightarrow>
      graph_invoke E limit (initial_state task) = Inl (NodeException err) \<and>
      map fst (graph_steps E limit (initial_state task)) =
        [ascii ''ceo_agent'', ascii ''research_team_leader'', ascii ''data_researcher'']) \<and>
   snd (data_researcher_calls backend state calls) = Suc calls \<and>
   snd (market_researcher_calls backend state calls) = Suc calls \<and>
   fst (data_researcher_calls backend state calls) =
     data_researcher \<lparr>llm = backend calls, now_strftime = stamp\<rparr> state \<and>
   fst (market_researcher_calls backend state calls) =
     market_researcher \<lparr>llm = backend calls, now_strftime = stamp\<rparr> state \<and>
   (backend calls (data_prompt (dict_get (current_task state) [])) = Inl err \<longrightarrow>
      data_researcher_calls backend state calls = (Inl err, Suc calls)) \<and>
   (backend calls (market_prompt (dict_get (current_task state) [])) = Inl err \<longrightarrow>
      market_researcher_calls backend state calls = (Inl err, Suc calls)) \<and>
   (backend calls (data_prompt task) = Inl err \<longrightarrow> 3 \<le> limit \<longrightarrow>
      snd (run_calls backend stamp limit entry_point (initial_state task) calls) =
        (Inl (NodeException err), Suc calls) \<and>
      map fst (fst (run_calls backend stamp limit entry_point (initial_state task) calls)) =
        [ascii ''ceo_agent'', ascii ''research_team_leader'']) \<and>
   (backend calls (data_prompt task) = Inr reply \<longrightarrow>
      backend (Suc calls) (market_prompt task) = Inl err \<longrightarrow> 4 \<le> limit \<longrightarrow>
      snd (run_calls backend stamp limit entry_point (initial_state task) calls) =
        (Inl (NodeException err), Suc (Suc calls)) \<and>
      map fst (fst (run_calls backend stamp limit entry_point (initial_state task) calls)) =
        [ascii ''ceo_agent'', ascii ''research_team_leader'', ascii ''data_researcher''])"
proof (intro conjI impI)
  assume "llm E (data_prompt (dict_get (current_task state) [])) = Inl err"
  then show "data_researcher E state = Inl err"
    by (simp add: data_researcher_def)
next
  assume "llm E (market_prompt (dict_get (current_task state) [])) = Inl err"
  then show "market_researcher E state = Inl err"
    by (simp add: market_researcher_def)
next
  assume fails: "llm E (data_prompt task) = Inl err" and "3 \<le> limit"
  then obtain k where limit: "limit = 3 + k"
    by (auto simp: le_iff_add)
  show "graph_invoke E limit (initial_state task) = Inl (NodeException err)"
    unfolding graph_invoke_def limit by (simp only: data_failure_run [OF fails] snd_conv)
  show "map fst (graph_steps E limit (initial_state task)) =
          [ascii ''ceo_agent'', ascii ''research_team_leader'']"
    unfolding graph_steps_def limit by (simp only: data_failure_run [OF fails]) simp
next
  assume answers: "llm E (data_prompt task) = Inr reply"
    and fails: "llm E (market_prompt task) = Inl err" and "4 \<le> limit"
  then obtain k where limit: "limit = 4 + k"
    by (auto simp: le_iff_add)
  show "graph_invoke E limit (initial_state task) = Inl (NodeException err)"
    unfolding graph_invoke_def limit using market_failure_run [OF answers fails] by blast
  show "map fst (graph_steps E limit (initial_state task)) =
          [ascii ''ceo_agent'', ascii ''research_team_leader'', ascii ''data_researcher'']"
    unfolding graph_steps_def limit using market_failure_run [OF answers fails] by blast
next
  show "snd (data_researcher_calls backend state calls) = Suc calls"
    by (rule researcher_calls_one)
next
  show "snd (market_researcher_calls backend state calls) = Suc calls"
    by (rule researcher_calls_one)
next
  show "fst (data_researcher_calls backend state calls) =
     data_researcher \<lparr>llm = backend calls, now_strftime = stamp\<rparr> state"
    by (rule researcher_calls_outcome)
next
  show "fst (market_researcher_calls backend state calls) =
     market_researcher \<lparr>llm = backend calls, now_strftime = stamp\<rparr> state"
    by (rule researcher_calls_outcome)
next
  assume "backend calls (data_prompt (dict_get (current_task state) [])) = Inl err"
  then show "data_researcher_calls backend state calls = (Inl err, Suc calls)"
    by (simp add: data_researcher_calls_def llm_invoke_def)
next
  assume "backend calls (market_prompt (dict_get (current_task state) [])) = Inl err"
  then show "market_researcher_calls backend state calls = (Inl err, Suc calls)"
    by (simp add: market_researcher_calls_def llm_invoke_def)
next
  assume fails: "backend calls (data_prompt task) = Inl err" and "3 \<le> limit"
  then obtain k where limit: "limit = 3 + k"
    by (auto simp: le_iff_add)
  show "snd (run_calls backend stamp limit entry_point (initial_state task) calls) =
          (Inl (NodeException err), Suc calls)"
    unfolding limit using data_failure_calls [where backend = backend and calls = calls, OF fails]
    by blast
  show "map fst (fst (run_calls backend stamp limit entry_point (initial_state task) calls)) =
          [ascii ''ceo_agent'', ascii ''research_team_leader'']"
    unfolding limit using data_failure_calls [where backend = backend and calls = calls, OF fails]
    by blast
next
  assume answers: "backend calls (data_prompt task) = Inr reply"
    and fails: "backend (Suc calls) (market_prompt task) = Inl err" and "4 \<le> limit"
  then obtain k where limit: "limit = 4 + k"
    by (auto simp: le_iff_add)
  show "snd (run_calls backend stamp limit entry_point (initial_state task) calls) =
          (Inl (NodeException err), Suc (Suc calls))"
    unfolding limit using market_failure_calls [where backend = backend and calls = calls, OF answers fails]
    by blast
  show "map fst (fst (run_calls backend stamp limit entry_point (initial_state task) calls)) =
          [ascii ''ceo_agent'', ascii ''research_team_leader'', ascii ''data_researcher'']"
    unfolding limit using market_failure_calls [where backend = backend and calls = calls, OF answers fails]
    by blast
qed

theorem generation_failure_aborts_witness:
  "data_researcher (failing_env ()) (initial_state sample_task) = Inl () \<and>
   market_researcher (failing_env ()) (initial_state sample_task) = Inl () \<and>
   graph_invoke (failing_env ()) default_recursion_limit (initial_state sample_task) =
     Inl (NodeException ()) \<and>
   map fst (graph_steps (failing_env ()) default_recursion_limit (initial_state sample_task)) =
     [ascii ''ceo_agent'', ascii ''research_team_leader''] \<and>
   graph_invoke (market_failing_env sample_task ()) default_recursion_limit
     (initial_state sample_task) = Inl (NodeException ()) \<and>
   map fst (graph_steps (market_failing_env sample_task ()) default_recursion_limit
     (initial_state sample_task)) =
     [ascii ''ceo_agent'', ascii ''research_team_leader'', ascii ''data_researcher''] \<and>
   failing_at 0 () (Suc 0) (data_prompt sample_task) = Inr (ascii ''STATS'') \<and>
   data_researcher_calls (failing_at 0 ()) (initial_state sample_task) 0 = (Inl (), Suc 0) \<and>
   market_researcher_calls (failing_at 0 ()) (initial_state sample_task) 0 = (Inl (), Suc 0) \<and>
   snd (run_calls (failing_at 0 ()) sample_stamp default_recursion_limit entry_point
          (initial_state sample_task) 0) = (Inl (NodeException ()), Suc 0) \<and>
   failing_at (Suc 0) () (Suc (Suc 0)) (market_prompt sample_task) = Inr (ascii ''STATS'') \<and>
   snd (run_calls (failing_at (Suc 0) ()) sample_stamp default_recursion_limit entry_point
          (initial_state sample_task) 0) = (Inl (NodeException ()), Suc (Suc 0))"
proof -
  have differ: "market_prompt sample_task \<noteq> data_prompt sample_task"
    by (simp add: market_prompt_def data_prompt_def ascii_def)
  have limit: "3 \<le> default_recursion_limit" "4 \<le> default_recursion_limit"
    by (simp_all add: default_recursion_limit_def)
  from generation_failure_aborts [where E = "failing_env ()"
      and state = "initial_state sample_task" and err = "()" and task = sample_task
      and limit = default_recursion_limit and reply = "[]" and backend = "failing_at 0 ()"
      and calls = 0 and stamp = sample_stamp] limit
  have first: "data_researcher (failing_env ()) (initial_state sample_task) = Inl () \<and>
    market_researcher (failing_env ()) (initial_state sample_task) = Inl () \<and>
    graph_invoke (failing_env ()) default_recursion_limit (initial_state sample_task) =
      Inl (NodeException ()) \<and>
    map fst (graph_steps (failing_env ()) default_recursion_limit (initial_state sample_task)) =
      [ascii ''ceo_agent'', ascii ''research_team_leader''] \<and>
    data_researcher_calls (failing_at 0 ()) (initial_state sample_task) 0 = (Inl (), Suc 0) \<and>
    market_researcher_calls (failing_at 0 ()) (initial_state sample_task) 0 = (Inl (), Suc 0) \<and>
    snd (run_calls (failing_at 0 ()) sample_stamp default_recursion_limit entry_point
          (initial_state sample_task) 0) = (Inl (NodeException ()), Suc 0)"
    by (simp add: failing_env_def failing_at_def)
  from generation_failure_aborts [where E = "market_failing_env sample_task ()"
      and state = "initial_state sample_task" and err = "()" and task = sample_task
      and limit = default_recursion_limit and reply = "ascii ''STATS''"
      and backend = "failing_at (Suc 0) ()" and calls = 0 and stamp = sample_stamp]
    limit differ
  have second: "graph_invoke (market_failing_env sample_task ()) default_recursion_limit
     (initial_state sample_task) = Inl (NodeException ()) \<and>
   map fst (graph_steps (market_failing_env sample_task ()) default_recursion_limit
     (initial_state sample_task)) =
     [ascii ''ceo_agent'', ascii ''research_team_leader'', ascii ''data_researcher''] \<and>
   snd (run_calls (failing_at (Suc 0) ()) sample_stamp default_recursion_limit entry_point
          (initial_state sample_task) 0) = (Inl (NodeException ()), Suc (Suc 0))"
    by (simp add: market_failing_env_def failing_at_def)
  have later: "failing_at 0 () (Suc 0) (data_prompt sample_task) = Inr (ascii ''STATS'')"
    "failing_at (Suc 0) () (Suc (Suc 0)) (market_prompt sample_task) = Inr (ascii ''STATS'')"
    by (simp_all add: failing_at_def)
  from first second later show ?thesis by blast
qed

text \<open>
  C10 as first stated fails. The error of a failed run names neither the worker nor the task, and comes with no
  state: on a backend whose every call raises the same error, both researchers end
  with that error, and the runs on two different tasks end with the same value.
\<close>

theorem generation_error_counterexample:
  "data_researcher (failing_env ()) (initial_state sample_task) = Inl () \<and>
   market_researcher (failing_env ()) (initial_state sample_task) = Inl () \<and>
   graph_invoke (failing_env ()) default_recursion_limit (initial_state sample_task) =
     Inl (NodeException ()) \<and>
   graph_invoke (failing_env ()) default_recursion_limit (initial_state (ascii ''another task'')) =
     Inl (NodeException ())"
proof -
  have limit: "default_recursion_limit = 3 + 22"
    by (simp add: default_recursion_limit_def)
  have fails: "llm (failing_env ()) (data_prompt task) = Inl ()" for task
    by (simp add: failing_env_def)
  have "graph_invoke (failing_env ()) default_recursion_limit (initial_state task) =
      Inl (NodeException ())" for task
    unfolding graph_invoke_def limit by (simp only: data_failure_run [OF fails] snd_conv)
  then show ?thesis
    by (simp add: data_researcher_def market_researcher_def failing_env_def)
qed

section \<open>Invariants of a run\<close>

text \<open>
  A property \<open>Q\<close> holds of the state after every completed step when some relation \<open>I\<close>
  between the node about to run and the state holds at the start, and every step that
  starts under \<open>I\<close> ends in a state with \<open>Q\<close> and, if the run goes on, under \<open>I\<close> again.
\<close>

lemma run_from_steps_invariant:
  assumes start: "I node state"
    and step: "\<And>node state handler upd.
      I node state \<Longrightarrow> map_of (nodes E) node = Some handler \<Longrightarrow> handler state = Inr upd \<Longrightarrow>
      Q (apply_update state upd) \<and>
      (\<forall>target. map_of path_map (router (apply_update state upd)) = Some target \<longrightarrow>
         target \<noteq> END \<longrightarrow> I target (apply_update state upd))"
  shows "\<forall>s \<in> set (map snd (fst (run_from E limit node state))). Q s"
  using start
proof (induction limit arbitrary: node state)
  case 0
  then show ?case by simp
next
  case (Suc limit)
  show ?case
  proof (cases "map_of (nodes E) node")
    case None
    then show ?thesis by simp
  next
    case (Some handler)
    show ?thesis
    proof (cases "handler state")
      case (Inl err)
      with Some show ?thesis by simp
    next
      case (Inr upd)
      from step [OF Suc.prems Some Inr]
      have here: "Q (apply_update state upd)"
        and onward: "\<And>target. map_of path_map (router (apply_update state upd)) = Some target \<Longrightarrow>
          target \<noteq> END \<Longrightarrow> I target (apply_update state upd)"
        by blast+
      show ?thesis
      proof (cases "map_of path_map (router (apply_update state upd))")
        case None
        with \<open>map_of (nodes E) node = Some handler\<close> Inr here show ?thesis
          by (simp add: Let_def)
      next
        case (Some target)
        show ?thesis
        proof (cases "target = END")
          case True
          with \<open>map_of (nodes E) node = Some handler\<close> Inr Some here show ?thesis
            by (simp add: Let_def)
        next
          case False
          from Suc.IH [OF onward [OF Some False]]
          have "\<forall>s \<in> set (map snd (fst (run_from E limit target (apply_update state upd)))). Q s" .
          with \<open>map_of (nodes E) node = Some handler\<close> Inr Some False here show ?thesis
            by (simp add: case_prod_beta Let_def)
        qed
      qed
    qed
  qed
qed

text \<open>The state a run returns is the state after its last completed step, and the router
  answered \<open>END\<close> on it.\<close>

lemma path_map_END: "map_of path_map name = Some END \<Longrightarrow> name = END"
  by (simp add: path_map_def split: if_splits)

lemma run_from_Inr:
  assumes "snd (run_from E limit node state) = Inr fin"
  shows "fin \<in> set (map snd (fst (run_from E limit node state))) \<and> router fin = END"
  using assms
proof (induction limit arbitrary: node state)
  case 0
  then show ?case by simp
next
  case (Suc limit)
  from Suc.prems obtain handler where handler: "map_of (nodes E) node = Some handler"
    by (cases "map_of (nodes E) node") auto
  from Suc.prems handler obtain upd where upd: "handler state = Inr upd"
    by (cases "handler state") auto
  from Suc.prems handler upd obtain target
    where target: "map_of path_map (router (apply_update state upd)) = Some target"
    by (cases "map_of path_map (router (apply_update state upd))") (auto simp: Let_def)
  show ?case
  proof (cases "target = END")
    case True
    with Suc.prems handler upd target have "fin = apply_update state upd"
      by (simp add: Let_def)
    with handler upd target True show ?thesis
      by (simp add: path_map_END Let_def)
  next
    case False
    with Suc.prems handler upd target
    have "snd (run_from E limit target (apply_update state upd)) = Inr fin"
      by (simp add: case_prod_beta Let_def)
    from Suc.IH [OF this] handler upd target False show ?thesis
      by (simp add: case_prod_beta Let_def)
  qed
qed

lemma report_invariant:
  assumes "task_complete input = Some True \<longrightarrow> bool_of_str (dict_get (final_report input) [])"
  shows "\<forall>s \<in> set (map snd (fst (run_from E limit node input))).
           (task_complete s = Some True \<longrightarrow> bool_of_str (dict_get (final_report s) [])) \<and>
           next_agent s \<noteq> None \<and> next_agent s \<noteq> Some END"
proof (rule run_from_steps_invariant [where
      I = "\<lambda>node s. task_complete s = Some True \<longrightarrow> bool_of_str (dict_get (final_report s) [])"])
  show "task_complete input = Some True \<longrightarrow> bool_of_str (dict_get (final_report input) [])"
    by (rule assms)
next
  fix node state handler upd
  assume inv: "task_complete state = Some True \<longrightarrow> bool_of_str (dict_get (final_report state) [])"
    and handler: "map_of (nodes E) node = Some handler" and upd: "handler state = Inr upd"
  have "(task_complete (apply_update state upd) = Some True \<longrightarrow>
           bool_of_str (dict_get (final_report (apply_update state upd)) [])) \<and>
        next_agent (apply_update state upd) \<noteq> None \<and>
        next_agent (apply_update state upd) \<noteq> Some END"
    using nodes_cases [OF handler] upd inv
    by (elim disjE conjE)
       (auto simp: worker_defs no_keys_def apply_update_def bool_of_str_def Let_def
             split: sum.splits if_splits)
  then show "((task_complete (apply_update state upd) = Some True \<longrightarrow>
           bool_of_str (dict_get (final_report (apply_update state upd)) [])) \<and>
        next_agent (apply_update state upd) \<noteq> None \<and>
        next_agent (apply_update state upd) \<noteq> Some END) \<and>
       (\<forall>target. map_of path_map (router (apply_update state upd)) = Some target \<longrightarrow>
          target \<noteq> END \<longrightarrow>
          (task_complete (apply_update state upd) = Some True \<longrightarrow>
             bool_of_str (dict_get (final_report (apply_update state upd)) [])))"
    by blast
qed

lemma run_from_success:
  assumes start: "task_complete input = Some True \<longrightarrow> bool_of_str (dict_get (final_report input) [])"
    and finished: "snd (run_from E limit node input) = Inr fin"
  shows "task_complete fin = Some True \<and> bool_of_str (dict_get (final_report fin) [])"
proof -
  from run_from_Inr [OF finished]
  have member: "fin \<in> set (map snd (fst (run_from E limit node input)))"
    and ended: "router fin = END"
    by blast+
  from report_invariant [OF start, of E limit node] member
  have inv: "task_complete fin = Some True \<longrightarrow> bool_of_str (dict_get (final_report fin) [])"
    and hint: "next_agent fin \<noteq> None" "next_agent fin \<noteq> Some END"
    by blast+
  from ended hint have "dict_get (task_complete fin) False"
    by (cases "next_agent fin") (auto simp: router_def split: if_splits)
  then have "task_complete fin = Some True"
    by (cases "task_complete fin") auto
  with inv show ?thesis by blast
qed

section \<open>The compile step\<close>

text \<open>
  C4 (as amended). The compile step writes to \<open>final_report\<close> a document made of one
  line break followed by the fourteen lines of the report layout, each ended by a line
  break: the first line of the document is empty and its second line is the title line;
  the task, the technical text and the summary are the values put in, with the clock's
  reading, and the backend named is Groq. The step sets \<open>task_complete\<close> and hands over
  to the \<^verbatim>\<open>ceo_agent\<close>. A run on the input that holds the task and the seed message,
  when it ends normally, returns a state whose \<open>final_report\<close> is non-empty and whose
  \<open>task_complete\<close> is true.
\<close>

theorem compile_report_completes:
  "compile_report E state =
     no_keys\<lparr>messages := [AIMessage ([0x2705] @
                 ascii '' Writing Team Leader: Final report compiled.'')],
       final_report := Some (report_text (now_strftime E)
                               (dict_get (current_task state) [])
                               (dict_get (technical_text state) [])
                               (dict_get (summary_text state) [])),
       task_complete := Some True,
       next_agent := Some entry_point\<rparr> \<and>
   report_text generated topic technical summary =
     NL @ concat (map (\<lambda>line. line @ NL)
       [[0x1F4C4] @ ascii '' FINAL REPORT'',
        ascii ''========================================================='',
        ascii ''Generated: '' @ generated,
        ascii ''Topic: '' @ topic,
        ascii ''========================================================='',
        [],
        ascii ''**Technical Details:**'',
        technical,
        [],
        ascii ''**Executive Summary:**'',
        summary,
        [],
        ascii ''========================================================='',
        ascii ''Compiled by Multi-Agent AI System powered by Groq'']) \<and>
   sublist topic (report_text generated topic technical summary) \<and>
   sublist technical (report_text generated topic technical summary) \<and>
   sublist summary (report_text generated topic technical summary) \<and>
   (graph_invoke E limit (initial_state task) = Inr fin \<longrightarrow>
      (\<exists>report. final_report fin = Some report \<and> report \<noteq> []) \<and>
      task_complete fin = Some True)"
proof (intro conjI impI)
  show "compile_report E state =
     no_keys\<lparr>messages := [AIMessage ([0x2705] @
                 ascii '' Writing Team Leader: Final report compiled.'')],
       final_report := Some (report_text (now_strftime E)
                               (dict_get (current_task state) [])
                               (dict_get (technical_text state) [])
                               (dict_get (summary_text state) [])),
       task_complete := Some True,
       next_agent := Some entry_point\<rparr>"
    by (simp add: compile_report_def entry_point_def)
next
  show "report_text generated topic technical summary =
     NL @ concat (map (\<lambda>line. line @ NL)
       [[0x1F4C4] @ ascii '' FINAL REPORT'',
        ascii ''========================================================='',
        ascii ''Generated: '' @ generated,
        ascii ''Topic: '' @ topic,
        ascii ''========================================================='',
        [],
        ascii ''**Technical Details:**'',
        technical,
        [],
        ascii ''**Executive Summary:**'',
        summary,
        [],
        ascii ''========================================================='',
        ascii ''Compiled by Multi-Agent AI System powered by Groq''])"
    by (simp add: report_text_def rule_line_def)
next
  assume "graph_invoke E limit (initial_state task) = Inr fin"
  then have finished: "snd (run_from E limit entry_point (initial_state task)) = Inr fin"
    by (simp add: graph_invoke_def)
  have "task_complete (initial_state task) = Some True \<longrightarrow>
        bool_of_str (dict_get (final_report (initial_state task)) [])"
    by (simp add: initial_state_def no_keys_def)
  from run_from_success [OF this finished]
  have complete: "task_complete fin = Some True"
    and report: "bool_of_str (dict_get (final_report fin) [])"
    by blast+
  from complete show "task_complete fin = Some True" .
  from report show "\<exists>report. final_report fin = Some report \<and> report \<noteq> []"
    by (cases "final_report fin") (auto simp: bool_of_str_def)
qed (rule report_text_contains)+

theorem compile_report_completes_witness:
  "\<exists>fin. graph_invoke sample_env default_recursion_limit (initial_state sample_task) = Inr fin \<and>
     (\<exists>report. final_report fin = Some report \<and> report \<noteq> []) \<and>
     task_complete fin = Some True"
proof -
  have limit: "default_recursion_limit = 10 + 15"
    by (simp add: default_recursion_limit_def)
  from stub_run_final [where 'a = unit, of sample_reply sample_stamp 15 sample_task]
  obtain fin where
    fin: "graph_invoke sample_env default_recursion_limit (initial_state sample_task) = Inr fin"
    unfolding graph_invoke_def sample_env_def limit by blast
  from compile_report_completes [of sample_env "initial_state sample_task" "[]" "[]" "[]" "[]"
      default_recursion_limit sample_task fin] fin
  show ?thesis by blast
qed

text \<open>
  C4 as first stated fails. The document does not open with the title line: its first character is the line
  break that follows the opening quotes of the template.
\<close>

theorem report_opening_counterexample:
  "\<not> prefix ([0x1F4C4] @ ascii '' FINAL REPORT'')
       (dict_get (final_report (compile_report sample_env (initial_state sample_task))) []) \<and>
   hd (dict_get (final_report (compile_report sample_env (initial_state sample_task))) []) = 10"
  by (simp add: compile_report_def report_text_def NL_def)

section \<open>What the merged research rests on\<close>

lemma run_from_last:
  assumes "snd (run_from E limit node state) = Inr fin"
  shows "last (state # map snd (fst (run_from E limit node state))) = fin"
proof -
  from run_from_Inr [OF assms]
  have nonempty: "map snd (fst (run_from E limit node state)) \<noteq> []"
    by auto
  from assms show ?thesis
  proof (induction limit arbitrary: node state)
    case 0
    then show ?case by simp
  next
    case (Suc limit)
    from Suc.prems obtain handler where handler: "map_of (nodes E) node = Some handler"
      by (cases "map_of (nodes E) node") auto
    from Suc.prems handler obtain upd where upd: "handler state = Inr upd"
      by (cases "handler state") auto
    from Suc.prems handler upd obtain target
      where target: "map_of path_map (router (apply_update state upd)) = Some target"
      by (cases "map_of path_map (router (apply_update state upd))") (auto simp: Let_def)
    show ?case
    proof (cases "target = END")
      case True
      with Suc.prems handler upd target show ?thesis
        by (simp add: Let_def)
    next
      case False
      with Suc.prems handler upd target
      have "snd (run_from E limit target (apply_update state upd)) = Inr fin"
        by (simp add: case_prod_beta Let_def)
      from Suc.IH [OF this] handler upd target False show ?thesis
        by (simp add: case_prod_beta Let_def)
    qed
  qed
qed

lemma research_invariant:
  assumes replies: "\<And>prompt reply. llm E prompt = Inr reply \<Longrightarrow> P (Some reply)"
  shows "\<forall>s \<in> set (map snd (fst (run_from E limit entry_point (initial_state task)))).
           bool_of_str (dict_get (merged_research s) []) \<longrightarrow>
           P (research_data s) \<and> P (market_data s)"
proof (rule run_from_steps_invariant [where
      I = "\<lambda>node s.
        (bool_of_str (dict_get (merged_research s) []) \<longrightarrow>
           P (research_data s) \<and> P (market_data s)) \<and>
        (node = ascii ''market_researcher'' \<longrightarrow> P (research_data s)) \<and>
        (node = ascii ''merge_research'' \<longrightarrow> P (research_data s) \<and> P (market_data s))"])
  show "(bool_of_str (dict_get (merged_research (initial_state task)) []) \<longrightarrow>
           P (research_data (initial_state task)) \<and> P (market_data (initial_state task))) \<and>
        (entry_point = ascii ''market_researcher'' \<longrightarrow> P (research_data (initial_state task))) \<and>
        (entry_point = ascii ''merge_research'' \<longrightarrow>
           P (research_data (initial_state task)) \<and> P (market_data (initial_state task)))"
    by (simp add: entry_point_def initial_state_def no_keys_def bool_of_str_def)
next
  fix node state handler upd
  assume inv: "(bool_of_str (dict_get (merged_research state) []) \<longrightarrow>
           P (research_data state) \<and> P (market_data state)) \<and>
        (node = ascii ''market_researcher'' \<longrightarrow> P (research_data state)) \<and>
        (node = ascii ''merge_research'' \<longrightarrow> P (research_data state) \<and> P (market_data state))"
    and handler: "map_of (nodes E) node = Some handler" and upd: "handler state = Inr upd"
  show "(bool_of_str (dict_get (merged_research (apply_update state upd)) []) \<longrightarrow>
           P (research_data (apply_update state upd)) \<and>
           P (market_data (apply_update state upd))) \<and>
        (\<forall>target. map_of path_map (router (apply_update state upd)) = Some target \<longrightarrow>
           target \<noteq> END \<longrightarrow>
           (bool_of_str (dict_get (merged_research (apply_update state upd)) []) \<longrightarrow>
              P (research_data (apply_update state upd)) \<and>
              P (market_data (apply_update state upd))) \<and>
           (target = ascii ''market_researcher'' \<longrightarrow> P (research_data (apply_update state upd))) \<and>
           (target = ascii ''merge_research'' \<longrightarrow>
              P (research_data (apply_update state upd)) \<and>
              P (market_data (apply_update state upd))))"
    using nodes_cases [OF handler] upd inv
    by (elim disjE conjE)
       (auto simp: worker_defs no_keys_def apply_update_def router_def bool_of_str_def Let_def
             split: sum.splits if_splits dest: replies)
qed

text \<open>
  C7 (as amended). In every state that a run started on the input with the task and
  the seed message passes through, whatever the backend and the recursion limit, a
  non-empty \<open>merged_research\<close> comes only after both researchers have written their
  keys: \<open>research_data\<close> and \<open>market_data\<close> are present. They are non-empty as well
  when the backend never answers with the empty text.
\<close>

theorem merged_research_needs_both:
  "\<forall>s \<in> set (reachable_states E limit (initial_state task)).
     bool_of_str (dict_get (merged_research s) []) \<longrightarrow>
       research_data s \<noteq> None \<and> market_data s \<noteq> None \<and>
       ((\<forall>prompt reply. llm E prompt = Inr reply \<longrightarrow> reply \<noteq> []) \<longrightarrow>
          bool_of_str (dict_get (research_data s) []) \<and>
          bool_of_str (dict_get (market_data s) []))"
proof
  fix s
  assume "s \<in> set (reachable_states E limit (initial_state task))"
  then consider (input) "s = initial_state task"
    | (step) "s \<in> set (map snd (fst (run_from E limit entry_point (initial_state task))))"
    by (auto simp: reachable_states_def graph_steps_def)
  then show "bool_of_str (dict_get (merged_research s) []) \<longrightarrow>
       research_data s \<noteq> None \<and> market_data s \<noteq> None \<and>
       ((\<forall>prompt reply. llm E prompt = Inr reply \<longrightarrow> reply \<noteq> []) \<longrightarrow>
          bool_of_str (dict_get (research_data s) []) \<and>
          bool_of_str (dict_get (market_data s) []))"
  proof cases
    case input
    then show ?thesis
      by (simp add: initial_state_def no_keys_def bool_of_str_def)
  next
    case step
    have present: "bool_of_str (dict_get (merged_research s) []) \<longrightarrow>
        research_data s \<noteq> None \<and> market_data s \<noteq> None"
      using research_invariant [where P = "\<lambda>field. field \<noteq> None", of E limit task] step
      by blast
    have filled: "bool_of_str (dict_get (merged_research s) []) \<longrightarrow>
        bool_of_str (dict_get (research_data s) []) \<and> bool_of_str (dict_get (market_data s) [])"
      if "\<forall>prompt reply. llm E prompt = Inr reply \<longrightarrow> reply \<noteq> []"
      using research_invariant [where P = "\<lambda>field. bool_of_str (dict_get field [])",
          of E limit task] step that
      by (auto simp: bool_of_str_def)
    from present filled show ?thesis by blast
  qed
qed

theorem merged_research_needs_both_witness:
  "\<not> (\<exists>prompt. llm sample_env prompt = Inr []) \<and>
   last (reachable_states sample_env default_recursion_limit (initial_state sample_task))
     \<in> set (reachable_states sample_env default_recursion_limit (initial_state sample_task)) \<and>
   bool_of_str (dict_get (merged_research
     (last (reachable_states sample_env default_recursion_limit (initial_state sample_task)))) []) \<and>
   bool_of_str (dict_get (research_data
     (last (reachable_states sample_env default_recursion_limit (initial_state sample_task)))) []) \<and>
   bool_of_str (dict_get (market_data
     (last (reachable_states sample_env default_recursion_limit (initial_state sample_task)))) [])"
proof -
  let ?states = "reachable_states sample_env default_recursion_limit (initial_state sample_task)"
  have limit: "default_recursion_limit = 10 + 15"
    by (simp add: default_recursion_limit_def)
  have replies: "\<forall>prompt reply. llm sample_env prompt = Inr reply \<longrightarrow> reply \<noteq> []"
    by (auto simp: sample_env_def stub_env_def sample_reply_def)
  from stub_run_final [where 'a = unit, of sample_reply sample_stamp 15 sample_task]
  obtain fin where
    fin: "snd (run_from sample_env default_recursion_limit entry_point
                 (initial_state sample_task)) = Inr fin"
    and merged: "bool_of_str (dict_get (merged_research fin) [])"
    unfolding sample_env_def limit by (auto simp: bool_of_str_def)
  from run_from_last [OF fin] have last: "last ?states = fin"
    by (simp add: reachable_states_def graph_steps_def)
  have member: "last ?states \<in> set ?states"
    by (rule last_in_set) (simp add: reachable_states_def)
  from merged_research_needs_both [of sample_env default_recursion_limit sample_task]
    member merged replies last
  show ?thesis by blast
qed

text \<open>
  C7 as first stated fails. On a backend whose replies are all empty, the run ends normally in a state whose
  \<open>merged_research\<close> is non-empty while \<open>research_data\<close> and \<open>market_data\<close> are empty.
\<close>

theorem empty_research_counterexample:
  "graph_invoke silent_env default_recursion_limit (initial_state sample_task) =
     Inr (last (reachable_states silent_env default_recursion_limit (initial_state sample_task))) \<and>
   bool_of_str (dict_get (merged_research
     (last (reachable_states silent_env default_recursion_limit (initial_state sample_task)))) []) \<and>
   research_data
     (last (reachable_states silent_env default_recursion_limit (initial_state sample_task))) =
     Some [] \<and>
   market_data
     (last (reachable_states silent_env default_recursion_limit (initial_state sample_task))) =
     Some []"
proof -
  have limit: "default_recursion_limit = 10 + 15"
    by (simp add: default_recursion_limit_def)
  from stub_run_final [where 'a = unit, of "\<lambda>prompt. []" sample_stamp 15 sample_task]
  obtain fin where
    fin: "snd (run_from silent_env default_recursion_limit entry_point
                 (initial_state sample_task)) = Inr fin"
    and merged: "bool_of_str (dict_get (merged_research fin) [])"
    and research: "research_data fin = Some []" and market: "market_data fin = Some []"
    unfolding silent_env_def limit by (auto simp: bool_of_str_def)
  from run_from_last [OF fin]
  have "last (reachable_states silent_env default_recursion_limit (initial_state sample_task)) =
          fin"
    by (simp add: reachable_states_def graph_steps_def)
  with fin merged research market show ?thesis
    by (simp add: graph_invoke_def)
qed

section \<open>The hand-over on the callers' inputs\<close>







end
